theory Spec2Isabelle
  imports Main
begin

section \<open>Intermediate representation of the WAT compiler (\<^verbatim>\<open>wat_compiler/ir_types.ts\<close>)\<close>

subsection \<open>Imported types\<close>

text \<open>
  Modelled from the spec: \<^verbatim>\<open>ValueType\<close> is imported from \<^verbatim>\<open>common/type\<close>, which is
  not among the sources. The glossary calls it "one of the scalar WebAssembly types
  (i32, i64, f32, f64, and reference types)". The code only compares value types with
  \<^verbatim>\<open>===\<close> and lodash \<^verbatim>\<open>isEqual\<close>, which is HOL equality on this datatype.
\<close>

datatype ValueType = I32 | I64 | F32 | F64 | FuncRef | ExternRef

text \<open>
  Modelled from the spec: \<^verbatim>\<open>TokenType\<close>, \<^verbatim>\<open>OpcodeType\<close> and \<^verbatim>\<open>ExportType\<close> are enumerations
  imported from \<^verbatim>\<open>common/token\<close>, \<^verbatim>\<open>common/opcode\<close> and \<^verbatim>\<open>common/export_types\<close>. The members
  the code names are constructors of their own; every other member is \<open>Other...\<close>.
\<close>

datatype TokenType = Block | Loop | If | End | Nat | Var | Text | Func | OtherTokenType string

datatype OpcodeType = OpcodeEnd | OtherOpcodeType nat

datatype ExportType = ExportFunc | OtherExportType nat

text \<open>
  A \<^verbatim>\<open>Token\<close> as the code builds it in \<^verbatim>\<open>createEndToken\<close>:
  \<^verbatim>\<open>new Token(type, lexeme, line, col, indexInSource, opcodeType, valueType)\<close>.
\<close>

datatype Token = Token
  (tokenType: TokenType)
  (lexeme: string)
  (line: nat)
  (col: nat)
  (indexInSource: nat)
  (opcodeType: "OpcodeType option")
  (valueType: "ValueType option")

text \<open>
  Every \<^verbatim>\<open>throw\<close> and every failed \<^verbatim>\<open>assert\<close> of the source is a value of this type.
  \<open>JSTypeError\<close> is the \<^verbatim>\<open>TypeError\<close> JavaScript itself raises when a property of \<^verbatim>\<open>null\<close>
  is read or a missing method is called.
\<close>

datatype error =
    TypeMismatch
  | TypeMismatchExpected "ValueType list" "ValueType list"
  | AssertionError
  | UnexpectedExportName
  | UnexpectedExportType
  | UnexpectedExportID
  | NameNotFound string
  | JSTypeError

subsection \<open>Signatures\<close>

text \<open>\<^verbatim>\<open>class FunctionSignature { paramTypes; returnTypes }\<close>; lodash \<^verbatim>\<open>isEqual\<close> on two
  of them is structural equality, which is equality of the record.\<close>

record FunctionSignature =
  paramTypes :: "ValueType list"
  returnTypes :: "ValueType list"

definition FunctionSignature_new :: "ValueType list \<Rightarrow> ValueType list \<Rightarrow> FunctionSignature" where
  "FunctionSignature_new ps rs = \<lparr> paramTypes = ps, returnTypes = rs \<rparr>"

definition isEqual :: "FunctionSignature \<Rightarrow> FunctionSignature \<Rightarrow> bool" where
  "isEqual a b = (paramTypes a = paramTypes b \<and> returnTypes a = returnTypes b)"

subsection \<open>Token expressions\<close>

text \<open>
  The four subclasses of \<^verbatim>\<open>TokenExpression\<close>; each overrides \<^verbatim>\<open>getConsumedTypes\<close>,
  \<^verbatim>\<open>getReturnTypes\<close> and \<^verbatim>\<open>unfold\<close>, so the throwing bodies of the abstract class never run.
  An operand is \<^verbatim>\<open>Token | TokenExpression\<close>, told
  apart at run time by \<^verbatim>\<open>instanceof Token\<close>. The items of an \<^verbatim>\<open>UnfoldedTokenExpression\<close> are
  declared \<^verbatim>\<open>(Token | OperationTree)[]\<close>; the methods treat them exactly like operands, so the
  model uses the same type for both (a superset of the declared one). A \<^verbatim>\<open>BlockExpression\<close>
  holds \<^verbatim>\<open>headerToken\<close>, \<^verbatim>\<open>blockExpression\<close> (its body) and \<^verbatim>\<open>label\<close>. The private fields
  \<^verbatim>\<open>returnTypes\<close>, \<^verbatim>\<open>consumedTypes\<close> and \<^verbatim>\<open>signature\<close> only cache what \<^verbatim>\<open>resolveTypes\<close> computes
  from the other fields, which are never reassigned, so the model recomputes them.
\<close>

datatype TokenExpression =
    OperationTree Token "Operand list"
  | UnfoldedTokenExpression "Operand list"
  | EmptyTokenExpression
  | BlockExpression Token TokenExpression "string option"
and Operand =
    TokenOperand Token
  | ExpressionOperand TokenExpression

text \<open>
  \<^verbatim>\<open>Token.getConsumedTypes()\<close> and \<^verbatim>\<open>Token.getReturnTypes()\<close> read the opcode table, which is not
  among the sources: the stack effect of a token is a parameter \<open>T\<close> of the model, giving
  the consumed and the returned types of each token.
\<close>

type_synonym StackEffects = "Token \<Rightarrow> ValueType list \<times> ValueType list"

definition Token_getConsumedTypes :: "StackEffects \<Rightarrow> Token \<Rightarrow> ValueType list" where
  "Token_getConsumedTypes T t = fst (T t)"

definition Token_getReturnTypes :: "StackEffects \<Rightarrow> Token \<Rightarrow> ValueType list" where
  "Token_getReturnTypes T t = snd (T t)"

text \<open>
  The inner loop of both \<^verbatim>\<open>resolveTypes\<close> methods. The stack is the JavaScript array, bottom
  first: \<^verbatim>\<open>stack.at(-1)\<close> is \<open>last\<close> (\<^verbatim>\<open>undefined\<close> on the empty array, equal to no value
  type), \<^verbatim>\<open>stack.pop()\<close> is \<open>butlast\<close>.
  \<^verbatim>\<open>
  for (const consumedValueType of consumed) {
    if (stack.at(-1) === consumedValueType) { stack.pop(); }
    else { throw new Error('Type mismatch'); }
  }
  \<close>
\<close>

fun popConsumed :: "ValueType list \<Rightarrow> ValueType list \<Rightarrow> error + ValueType list" where
  "popConsumed [] stack = Inr stack"
| "popConsumed (consumedValueType # rest) stack =
     (if stack \<noteq> [] \<and> last stack = consumedValueType
      then popConsumed rest (butlast stack)
      else Inl TypeMismatch)"

text \<open>One iteration of the outer loop: pop \<open>consumed\<close>, then \<^verbatim>\<open>stack.push(...added)\<close>.\<close>

definition applyEffect :: "ValueType list \<Rightarrow> ValueType list \<times> ValueType list \<Rightarrow> error + ValueType list" where
  "applyEffect stack eff =
     (case popConsumed (fst eff) stack of
        Inl e \<Rightarrow> Inl e
      | Inr stack' \<Rightarrow> Inr (stack' @ snd eff))"

text \<open>
  \<open>resolveTypes T e\<close> is the pair (\<^verbatim>\<open>e.getConsumedTypes()\<close>, \<^verbatim>\<open>e.getReturnTypes()\<close>), or the
  exception either call raises. For an \<^verbatim>\<open>OperationTree\<close> and an \<^verbatim>\<open>UnfoldedTokenExpression\<close>
  it is what \<^verbatim>\<open>resolveTypes()\<close> stores; for a \<^verbatim>\<open>BlockExpression\<close> it is the \<^verbatim>\<open>paramTypes\<close> and
  \<^verbatim>\<open>returnTypes\<close> of the signature that \<^verbatim>\<open>resolveTypes()\<close> builds from the body; for the
  \<^verbatim>\<open>EmptyTokenExpression\<close> both are \<^verbatim>\<open>[]\<close>. \<open>runOperands\<close> is the loop over the operands
  (or items), threading the stack.
\<close>

fun resolveTypes :: "StackEffects \<Rightarrow> TokenExpression \<Rightarrow> error + (ValueType list \<times> ValueType list)"
and operandTypes :: "StackEffects \<Rightarrow> Operand \<Rightarrow> error + (ValueType list \<times> ValueType list)"
and runOperands :: "StackEffects \<Rightarrow> Operand list \<Rightarrow> ValueType list \<Rightarrow> error + ValueType list"
where
  "resolveTypes T (OperationTree operator operands) =
     (case runOperands T operands [] of
        Inl e \<Rightarrow> Inl e
      | Inr stack \<Rightarrow>
          (if stack = Token_getConsumedTypes T operator
           then Inr ([], Token_getReturnTypes T operator)
           else Inl (TypeMismatchExpected (Token_getConsumedTypes T operator) stack)))"
| "resolveTypes T (UnfoldedTokenExpression toks) =
     (case runOperands T toks [] of
        Inl e \<Rightarrow> Inl e
      | Inr stack \<Rightarrow> Inr ([], stack))"
| "resolveTypes T EmptyTokenExpression = Inr ([], [])"
| "resolveTypes T (BlockExpression headerToken blockExpression label) =
     (case resolveTypes T blockExpression of
        Inl e \<Rightarrow> Inl e
      | Inr (consumed, returned) \<Rightarrow>
          (let signature = FunctionSignature_new consumed returned
           in Inr (paramTypes signature, returnTypes signature)))"
| "operandTypes T (TokenOperand t) = Inr (Token_getConsumedTypes T t, Token_getReturnTypes T t)"
| "operandTypes T (ExpressionOperand e) = resolveTypes T e"
| "runOperands T [] stack = Inr stack"
| "runOperands T (operand # rest) stack =
     (case operandTypes T operand of
        Inl e \<Rightarrow> Inl e
      | Inr eff \<Rightarrow>
          (case applyEffect stack eff of
             Inl e \<Rightarrow> Inl e
           | Inr stack' \<Rightarrow> runOperands T rest stack'))"

definition getConsumedTypes :: "StackEffects \<Rightarrow> TokenExpression \<Rightarrow> error + ValueType list" where
  "getConsumedTypes T e = (case resolveTypes T e of Inl x \<Rightarrow> Inl x | Inr r \<Rightarrow> Inr (fst r))"

definition getReturnTypes :: "StackEffects \<Rightarrow> TokenExpression \<Rightarrow> error + ValueType list" where
  "getReturnTypes T e = (case resolveTypes T e of Inl x \<Rightarrow> Inl x | Inr r \<Rightarrow> Inr (snd r))"

subsection \<open>Block expressions\<close>

text \<open>
  The constructor asserts the kind of the header token and stores the header, the body and the
  label. Its parameter \<^verbatim>\<open>signature\<close> is assigned to no field.
\<close>

definition BlockExpression_new ::
  "Token \<Rightarrow> FunctionSignature \<Rightarrow> TokenExpression \<Rightarrow> string option \<Rightarrow> error + TokenExpression" where
  "BlockExpression_new headerToken signature blockExpression label =
     (if tokenType headerToken = Block \<or> tokenType headerToken = Loop \<or> tokenType headerToken = If
      then Inr (BlockExpression headerToken blockExpression label)
      else Inl AssertionError)"

text \<open>
  \<^verbatim>\<open>getSignature()\<close> of a \<^verbatim>\<open>BlockExpression\<close>: the field \<^verbatim>\<open>signature\<close> is undefined after
  construction, so the first call runs
  \<^verbatim>\<open>
  const returnTypes = this.blockExpression.getReturnTypes();
  const consumedTypes = this.blockExpression.getConsumedTypes();
  this.signature = new FunctionSignature(consumedTypes, returnTypes);
  \<close>
  and later calls return the same value. No other class has the method.
\<close>

fun BlockExpression_getSignature :: "StackEffects \<Rightarrow> TokenExpression \<Rightarrow> error + FunctionSignature" where
  "BlockExpression_getSignature T (BlockExpression headerToken blockExpression label) =
     (case getReturnTypes T blockExpression of
        Inl e \<Rightarrow> Inl e
      | Inr returned \<Rightarrow>
          (case getConsumedTypes T blockExpression of
             Inl e \<Rightarrow> Inl e
           | Inr consumed \<Rightarrow> Inr (FunctionSignature_new consumed returned)))"
| "BlockExpression_getSignature T (OperationTree operator operands) = Inl JSTypeError"
| "BlockExpression_getSignature T (UnfoldedTokenExpression toks) = Inl JSTypeError"
| "BlockExpression_getSignature T EmptyTokenExpression = Inl JSTypeError"

definition createEndToken :: "Token \<Rightarrow> Token" where
  "createEndToken headerToken =
     Token End ''end'' (line headerToken) (col headerToken) (indexInSource headerToken)
       (Some OpcodeEnd) None"

subsection \<open>Unfolding\<close>

datatype PureUnfolded =
    PureUnfoldedTokenExpression "Token list"
  | PureUnfoldedBlockExpression FunctionSignature "Token list"

fun tokens :: "PureUnfolded \<Rightarrow> Token list" where
  "tokens (PureUnfoldedTokenExpression ts) = ts"
| "tokens (PureUnfoldedBlockExpression sig ts) = ts"

text \<open>
  \<open>flatMapUnfold\<close> is \<^verbatim>\<open>xs.flatMap(x => x instanceof Token ? [x] : x.unfold().tokens)\<close>, the
  callback being \<open>unfoldOperand\<close>; an exception in one call ends the whole \<^verbatim>\<open>flatMap\<close>.
  In \<^verbatim>\<open>BlockExpression.unfold\<close> the argument \<^verbatim>\<open>this.getSignature()\<close> is evaluated before the
  body is unfolded.
\<close>

fun unfold :: "StackEffects \<Rightarrow> TokenExpression \<Rightarrow> error + PureUnfolded"
and unfoldOperand :: "StackEffects \<Rightarrow> Operand \<Rightarrow> error + Token list"
and flatMapUnfold :: "StackEffects \<Rightarrow> Operand list \<Rightarrow> error + Token list"
where
  "unfold T (OperationTree operator operands) =
     (case flatMapUnfold T operands of
        Inl e \<Rightarrow> Inl e
      | Inr unfoldedOperands \<Rightarrow> Inr (PureUnfoldedTokenExpression (unfoldedOperands @ [operator])))"
| "unfold T (UnfoldedTokenExpression toks) =
     (case flatMapUnfold T toks of
        Inl e \<Rightarrow> Inl e
      | Inr unfoldedOperands \<Rightarrow> Inr (PureUnfoldedTokenExpression unfoldedOperands))"
| "unfold T EmptyTokenExpression = Inr (PureUnfoldedTokenExpression [])"
| "unfold T (BlockExpression headerToken blockExpression label) =
     (case BlockExpression_getSignature T (BlockExpression headerToken blockExpression label) of
        Inl e \<Rightarrow> Inl e
      | Inr sig \<Rightarrow>
          (case unfold T blockExpression of
             Inl e \<Rightarrow> Inl e
           | Inr body \<Rightarrow>
               Inr (PureUnfoldedBlockExpression sig
                      ([headerToken] @ tokens body @ [createEndToken headerToken]))))"
| "unfoldOperand T (TokenOperand t) = Inr [t]"
| "unfoldOperand T (ExpressionOperand e) =
     (case unfold T e of Inl x \<Rightarrow> Inl x | Inr p \<Rightarrow> Inr (tokens p))"
| "flatMapUnfold T [] = Inr []"
| "flatMapUnfold T (operand # rest) =
     (case unfoldOperand T operand of
        Inl e \<Rightarrow> Inl e
      | Inr ts \<Rightarrow>
          (case flatMapUnfold T rest of
             Inl e \<Rightarrow> Inl e
           | Inr ts' \<Rightarrow> Inr (ts @ ts')))"

subsection \<open>Export expressions\<close>

text \<open>
  A JavaScript \<^verbatim>\<open>number\<close>, as far as \<^verbatim>\<open>Number.parseInt\<close> can return one: an integer value,
  \<^verbatim>\<open>NaN\<close> or an infinity. \<^verbatim>\<open>Number.parseInt\<close> belongs to the language and \<^verbatim>\<open>Token.extractName\<close>
  to \<^verbatim>\<open>common/token\<close>; both are parameters (\<open>parseInt\<close>, \<open>extractName\<close>) of the constructor's model.
\<close>

datatype JSNumber = Number int | NaN | PosInfinity | NegInfinity

record ExportExpression =
  exportName :: string
  exportType :: ExportType
  exportReferenceIndex :: "JSNumber option"
  exportReferenceName :: "string option"

definition getExportName :: "(Token \<Rightarrow> string) \<Rightarrow> Token \<Rightarrow> error + string" where
  "getExportName extractName t =
     (if tokenType t \<noteq> Text then Inl UnexpectedExportName else Inr (extractName t))"

definition getExportType :: "Token \<Rightarrow> error + ExportType" where
  "getExportType t =
     (if tokenType t \<noteq> Func then Inl UnexpectedExportType else Inr ExportFunc)"

fun getExportReference :: "(string \<Rightarrow> JSNumber) \<Rightarrow> Token \<Rightarrow> error + (JSNumber option \<times> string option)" where
  "getExportReference parseInt t =
     (case tokenType t of
        Nat \<Rightarrow> Inr (Some (parseInt (lexeme t)), None)
      | Var \<Rightarrow> Inr (None, Some (lexeme t))
      | _ \<Rightarrow> Inl UnexpectedExportID)"

text \<open>
  The implementation signature of the constructor:
  \<^verbatim>\<open>(exportName: string | Token, exportType: ExportType | Token, exportReference: number | Token)\<close>.
  The two fields of the reference start as \<^verbatim>\<open>null\<close>.
\<close>

definition ExportExpression_new ::
  "(Token \<Rightarrow> string) \<Rightarrow> (string \<Rightarrow> JSNumber) \<Rightarrow>
   string + Token \<Rightarrow> ExportType + Token \<Rightarrow> JSNumber + Token \<Rightarrow> error + ExportExpression" where
  "ExportExpression_new extractName parseInt name ty reference =
     (case (case name of Inl str \<Rightarrow> Inr str | Inr t \<Rightarrow> getExportName extractName t) of
        Inl e \<Rightarrow> Inl e
      | Inr name' \<Rightarrow>
          (case (case ty of Inr t \<Rightarrow> getExportType t | Inl et \<Rightarrow> Inr et) of
             Inl e \<Rightarrow> Inl e
           | Inr ty' \<Rightarrow>
               (case (case reference of
                        Inl n \<Rightarrow> Inr (Some n, None)
                      | Inr t \<Rightarrow> getExportReference parseInt t) of
                  Inl e \<Rightarrow> Inl e
                | Inr (idx, nm) \<Rightarrow>
                    Inr \<lparr> exportName = name', exportType = ty',
                          exportReferenceIndex = idx, exportReferenceName = nm \<rparr>)))"

text \<open>
  The first overload, \<^verbatim>\<open>constructor(exportName: string, exportType: ExportType,
  exportReference: number)\<close> ("Constructor for inline function exports"): no token is read,
  nothing can be thrown.
\<close>

definition ExportExpression_inline :: "string \<Rightarrow> ExportType \<Rightarrow> JSNumber \<Rightarrow> ExportExpression" where
  "ExportExpression_inline name ty n =
     \<lparr> exportName = name, exportType = ty,
       exportReferenceIndex = Some n, exportReferenceName = None \<rparr>"

subsection \<open>Function expressions\<close>

datatype FunctionBody = FunctionBody (body: TokenExpression)

record FunctionExpression =
  functionSignature :: FunctionSignature
  functionBody :: FunctionBody
  functionName :: "string option"
  hasInlineExport :: bool
  inlineExportName :: "string option"
  paramNames :: "string option list"
  localTypes :: "ValueType list"
  localNames :: "string option list"

text \<open>\<^verbatim>\<open>assert\<close> (from \<^verbatim>\<open>common/assert\<close>) throws when its condition is false.\<close>

definition FunctionExpression_new ::
  "string option \<Rightarrow> string option \<Rightarrow> ValueType list \<Rightarrow> string option list \<Rightarrow> ValueType list \<Rightarrow>
   ValueType list \<Rightarrow> string option list \<Rightarrow> TokenExpression \<Rightarrow> error + FunctionExpression" where
  "FunctionExpression_new fname exportNm pTypes pNames rTypes lTypes lNames bdy =
     (if length pTypes \<noteq> length pNames then Inl AssertionError
      else if length lTypes \<noteq> length lNames then Inl AssertionError
      else Inr \<lparr> functionSignature = FunctionSignature_new pTypes rTypes,
                 functionBody = FunctionBody bdy,
                 functionName = fname,
                 hasInlineExport = (exportNm \<noteq> None),
                 inlineExportName = exportNm,
                 paramNames = pNames,
                 localTypes = lTypes,
                 localNames = lNames \<rparr>)"

definition FunctionExpression_getSignature :: "FunctionExpression \<Rightarrow> FunctionSignature" where
  "FunctionExpression_getSignature f = functionSignature f"

text \<open>
  \<^verbatim>\<open>for (const [i, x] of xs.entries()) { if (p(x)) { return i; } }\<close>: the index of the first
  entry that passes the test, counted from \<open>i\<close>, or \<open>None\<close> when the loop runs to its end.
\<close>

fun entriesFind :: "('a \<Rightarrow> bool) \<Rightarrow> 'a list \<Rightarrow> nat \<Rightarrow> nat option" where
  "entriesFind p [] i = None"
| "entriesFind p (x # xs) i = (if p x then Some i else entriesFind p xs (Suc i))"

text \<open>The slots hold \<^verbatim>\<open>string | null\<close>; \<^verbatim>\<open>name === nameToResolve\<close> is false on \<^verbatim>\<open>null\<close>.\<close>

definition resolveVariableIndex :: "FunctionExpression \<Rightarrow> string \<Rightarrow> error + nat" where
  "resolveVariableIndex f nameToResolve =
     (case entriesFind (\<lambda>name. name = Some nameToResolve) (paramNames f @ localNames f) 0 of
        Some i \<Rightarrow> Inr i
      | None \<Rightarrow> Inl (NameNotFound nameToResolve))"

subsection \<open>Module expressions\<close>

text \<open>\<^verbatim>\<open>globals\<close> holds the \<^verbatim>\<open>HasIdentifier\<close> objects pushed by \<^verbatim>\<open>addFunctionExpression\<close>:
  function expressions.\<close>

record ModuleExpression =
  globalTypes :: "FunctionSignature list"
  "functions" :: "FunctionExpression list"
  globals :: "FunctionExpression list"
  exportExpressions :: "ExportExpression list"

definition emptyModule :: ModuleExpression where
  "emptyModule = \<lparr> globalTypes = [], functions = [], globals = [], exportExpressions = [] \<rparr>"

definition addExportExpression :: "ModuleExpression \<Rightarrow> ExportExpression \<Rightarrow> ModuleExpression" where
  "addExportExpression m exportExpression =
     m\<lparr> exportExpressions := exportExpressions m @ [exportExpression] \<rparr>"

text \<open>The scan of \<^verbatim>\<open>addGlobalType\<close>: true when the loop returns early.\<close>

fun existsEqual :: "FunctionSignature list \<Rightarrow> FunctionSignature \<Rightarrow> bool" where
  "existsEqual [] t = False"
| "existsEqual (existingType # rest) t = (if isEqual existingType t then True else existsEqual rest t)"

definition addGlobalType :: "ModuleExpression \<Rightarrow> FunctionSignature \<Rightarrow> ModuleExpression" where
  "addGlobalType m t =
     (if existsEqual (globalTypes m) t then m
      else m\<lparr> globalTypes := globalTypes m @ [t] \<rparr>)"

definition resolveGlobalTypeIndex :: "ModuleExpression \<Rightarrow> FunctionSignature \<Rightarrow> error + nat" where
  "resolveGlobalTypeIndex m t =
     (case entriesFind (\<lambda>existing_type. isEqual existing_type t) (globalTypes m) 0 of
        Some i \<Rightarrow> Inr i
      | None \<Rightarrow> Inl AssertionError)"

text \<open>
  \<^verbatim>\<open>addFunctionExpression\<close>. With \<^verbatim>\<open>hasInlineExport\<close> set and \<^verbatim>\<open>inlineExportName\<close> null (which the
  constructor of \<^verbatim>\<open>FunctionExpression\<close> never produces) the \<^verbatim>\<open>ExportExpression\<close> constructor reads
  \<^verbatim>\<open>null.type\<close> and JavaScript throws.
\<close>

definition addFunctionExpression :: "ModuleExpression \<Rightarrow> FunctionExpression \<Rightarrow> error + ModuleExpression" where
  "addFunctionExpression m functionExpression =
     (let m1 = m\<lparr> functions := functions m @ [functionExpression] \<rparr>;
          m2 = addGlobalType m1 (FunctionExpression_getSignature functionExpression);
          m3 = m2\<lparr> globals := globals m2 @ [functionExpression] \<rparr>
      in if hasInlineExport functionExpression
         then (case inlineExportName functionExpression of
                 None \<Rightarrow> Inl JSTypeError
               | Some name \<Rightarrow>
                   Inr (addExportExpression m3
                          (ExportExpression_inline name ExportFunc
                             (Number (int (length (functions m3)) - 1)))))
         else Inr m3)"

text \<open>The constructor \<^verbatim>\<open>ModuleExpression(...childNodes)\<close> adds its children in order.\<close>

datatype ChildNode = FunctionChild FunctionExpression | ExportChild ExportExpression

fun addChildren :: "ModuleExpression \<Rightarrow> ChildNode list \<Rightarrow> error + ModuleExpression" where
  "addChildren m [] = Inr m"
| "addChildren m (FunctionChild f # rest) =
     (case addFunctionExpression m f of Inl e \<Rightarrow> Inl e | Inr m' \<Rightarrow> addChildren m' rest)"
| "addChildren m (ExportChild e # rest) = addChildren (addExportExpression m e) rest"

definition ModuleExpression_new :: "ChildNode list \<Rightarrow> error + ModuleExpression" where
  "ModuleExpression_new childNodes = addChildren emptyModule childNodes"

text \<open>A sequence of the three additions, for statements about every sequence of them.\<close>

datatype ModuleOp =
    AddGlobalType FunctionSignature
  | AddFunctionExpression FunctionExpression
  | AddExportExpression ExportExpression

fun applyOps :: "ModuleExpression \<Rightarrow> ModuleOp list \<Rightarrow> error + ModuleExpression" where
  "applyOps m [] = Inr m"
| "applyOps m (AddGlobalType t # rest) = applyOps (addGlobalType m t) rest"
| "applyOps m (AddFunctionExpression f # rest) =
     (case addFunctionExpression m f of Inl e \<Rightarrow> Inl e | Inr m' \<Rightarrow> applyOps m' rest)"
| "applyOps m (AddExportExpression e # rest) = applyOps (addExportExpression m e) rest"

text \<open>The constructor's dispatch on the class of a child.\<close>

fun childOp :: "ChildNode \<Rightarrow> ModuleOp" where
  "childOp (FunctionChild f) = AddFunctionExpression f"
| "childOp (ExportChild e) = AddExportExpression e"

subsection \<open>The revision of \<^verbatim>\<open>BlockExpression\<close> that stores a \<^verbatim>\<open>BlockSignature\<close>\<close>

text \<open>
  A second revision of \<^verbatim>\<open>ir_types.ts\<close> among the sources has no type resolution. Its
  \<^verbatim>\<open>BlockExpression\<close> constructor takes \<^verbatim>\<open>(headerToken, name, paramTypes, returnTypes,
  blockExpression)\<close> and stores \<^verbatim>\<open>new BlockSignature(headerToken.type, name, paramTypes,
  returnTypes)\<close>, whose constructor asserts the block kind and builds
  \<^verbatim>\<open>new SignatureType(paramTypes, returnTypes)\<close>; \<^verbatim>\<open>getSignatureType()\<close> returns that stored
  value. \<^verbatim>\<open>SignatureType\<close> has the fields of \<^verbatim>\<open>FunctionSignature\<close> above and the method
  \<^verbatim>\<open>isEmpty()\<close>. The block of this revision is named \<open>SignedBlockExpression\<close> here; its body
  plays no part in the signature and is a type parameter.
\<close>

datatype BlockSignature = BlockSignature TokenType "string option" FunctionSignature

fun signatureType :: "BlockSignature \<Rightarrow> FunctionSignature" where
  "signatureType (BlockSignature blockType name sigType) = sigType"

definition BlockSignature_new ::
  "TokenType \<Rightarrow> string option \<Rightarrow> ValueType list \<Rightarrow> ValueType list \<Rightarrow> error + BlockSignature" where
  "BlockSignature_new blockType name pTypes rTypes =
     (if blockType = Block \<or> blockType = Loop \<or> blockType = If
      then Inr (BlockSignature blockType name (FunctionSignature_new pTypes rTypes))
      else Inl AssertionError)"

datatype 'body SignedBlockExpression = SignedBlockExpression 'body BlockSignature Token

definition SignedBlockExpression_new ::
  "Token \<Rightarrow> string option \<Rightarrow> ValueType list \<Rightarrow> ValueType list \<Rightarrow> 'body \<Rightarrow>
   error + 'body SignedBlockExpression" where
  "SignedBlockExpression_new headerToken name pTypes rTypes blockExpression =
     (case BlockSignature_new (tokenType headerToken) name pTypes rTypes of
        Inl e \<Rightarrow> Inl e
      | Inr sig \<Rightarrow> Inr (SignedBlockExpression blockExpression sig headerToken))"

fun getSignatureType :: "'body SignedBlockExpression \<Rightarrow> FunctionSignature" where
  "getSignatureType (SignedBlockExpression blockExpression sig headerToken) = signatureType sig"

definition isEmpty :: "FunctionSignature \<Rightarrow> bool" where
  "isEmpty sig = (length (paramTypes sig) = 0 \<and> length (returnTypes sig) = 0)"

section \<open>Predicates used in the statements\<close>

text \<open>An expression has a block when a \<^verbatim>\<open>BlockExpression\<close> occurs in it, at any depth.\<close>

fun hasBlock :: "TokenExpression \<Rightarrow> bool"
and hasBlockOperand :: "Operand \<Rightarrow> bool"
where
  "hasBlock (OperationTree operator operands) = list_ex hasBlockOperand operands"
| "hasBlock (UnfoldedTokenExpression toks) = list_ex hasBlockOperand toks"
| "hasBlock EmptyTokenExpression = False"
| "hasBlock (BlockExpression headerToken blockExpression label) = True"
| "hasBlockOperand (TokenOperand t) = False"
| "hasBlockOperand (ExpressionOperand e) = hasBlock e"

text \<open>
  \<^verbatim>\<open>getSignature()\<close> returns (does not throw) on every \<^verbatim>\<open>BlockExpression\<close> that occurs in the
  expression.
\<close>

fun signaturesResolve :: "StackEffects \<Rightarrow> TokenExpression \<Rightarrow> bool"
and signaturesResolveOperand :: "StackEffects \<Rightarrow> Operand \<Rightarrow> bool"
where
  "signaturesResolve T (OperationTree operator operands) = list_all (signaturesResolveOperand T) operands"
| "signaturesResolve T (UnfoldedTokenExpression toks) = list_all (signaturesResolveOperand T) toks"
| "signaturesResolve T EmptyTokenExpression = True"
| "signaturesResolve T (BlockExpression headerToken blockExpression label) =
     ((case BlockExpression_getSignature T (BlockExpression headerToken blockExpression label) of
         Inl e \<Rightarrow> False | Inr sig \<Rightarrow> True)
      \<and> signaturesResolve T blockExpression)"
| "signaturesResolveOperand T (TokenOperand t) = True"
| "signaturesResolveOperand T (ExpressionOperand e) = signaturesResolve T e"

text \<open>The two errors \<^verbatim>\<open>resolveTypes\<close> throws: \<^verbatim>\<open>'Type mismatch'\<close>, with or without the expected
  and the found types.\<close>

definition isTypeError :: "error \<Rightarrow> bool" where
  "isTypeError e = (case e of TypeMismatch \<Rightarrow> True | TypeMismatchExpected a b \<Rightarrow> True | _ \<Rightarrow> False)"

section \<open>Example inputs\<close>

text \<open>A function with parameters \<^verbatim>\<open>$a\<close>, an unnamed one and \<^verbatim>\<open>$b\<close>, and locals \<^verbatim>\<open>$a\<close> and \<^verbatim>\<open>$c\<close>.\<close>

definition exampleFunction :: FunctionExpression where
  "exampleFunction =
     \<lparr> functionSignature = FunctionSignature_new [I32, I64, F32] [I32],
       functionBody = FunctionBody EmptyTokenExpression,
       functionName = Some ''$f'',
       hasInlineExport = True,
       inlineExportName = Some ''fn'',
       paramNames = [Some ''$a'', None, Some ''$b''],
       localTypes = [I32, I32],
       localNames = [Some ''$a'', Some ''$c''] \<rparr>"

text \<open>Two functions, the second with an inline export, and a module built from them.\<close>

definition fnA :: FunctionExpression where
  "fnA = \<lparr> functionSignature = FunctionSignature_new [F64, F64] [F64],
       functionBody = FunctionBody EmptyTokenExpression,
       functionName = Some ''$a'', hasInlineExport = False, inlineExportName = None,
       paramNames = [Some ''$x'', Some ''$y''], localTypes = [], localNames = [] \<rparr>"

definition fnB :: FunctionExpression where
  "fnB = \<lparr> functionSignature = FunctionSignature_new [] [],
       functionBody = FunctionBody EmptyTokenExpression,
       functionName = Some ''$b'', hasInlineExport = True, inlineExportName = Some ''fn'',
       paramNames = [], localTypes = [], localNames = [] \<rparr>"

definition exampleOps :: "ModuleOp list" where
  "exampleOps = [AddFunctionExpression fnA, AddGlobalType (FunctionSignature_new [] []),
                 AddFunctionExpression fnB, AddFunctionExpression fnA]"

definition exampleModule :: ModuleExpression where
  "exampleModule =
     \<lparr> globalTypes = [FunctionSignature_new [F64, F64] [F64], FunctionSignature_new [] []],
       functions = [fnA, fnB, fnA],
       globals = [fnA, fnB, fnA],
       exportExpressions = [ExportExpression_inline ''fn'' ExportFunc (Number 1)] \<rparr>"

text \<open>A stand-in for \<^verbatim>\<open>Number.parseInt\<close> on the one lexeme the examples parse, and the tokens of
  \<^verbatim>\<open>(export "x" (func 3))\<close> and \<^verbatim>\<open>(export "x" (func $b))\<close>.\<close>

definition exampleParseInt :: "string \<Rightarrow> JSNumber" where
  "exampleParseInt s = (if s = ''3'' then Number 3 else NaN)"

definition nameToken :: Token where
  "nameToken = Token Text ''\"x\"'' 1 9 8 None None"

definition funcToken :: Token where
  "funcToken = Token Func ''func'' 1 14 13 None None"

definition natToken :: Token where
  "natToken = Token Nat ''3'' 1 19 18 None None"

definition varToken :: Token where
  "varToken = Token Var ''$b'' 1 19 18 None None"

text \<open>
  A stand-in for the opcode table on the mnemonics the examples use; every other token
  (a literal, \<^verbatim>\<open>nop\<close>, \<^verbatim>\<open>block\<close>) neither consumes nor returns a value.
\<close>

definition exampleEffects :: StackEffects where
  "exampleEffects t =
     (if lexeme t = ''i32.const'' then ([], [I32])
      else if lexeme t = ''i64.const'' then ([], [I64])
      else if lexeme t = ''i64.store'' then ([I32, I64], [])
      else if lexeme t = ''i32.add'' then ([I32, I32], [I32])
      else ([], []))"

definition opcodeToken :: "string \<Rightarrow> Token" where
  "opcodeToken s = Token (OtherTokenType ''opcode'') s 1 1 0 (Some (OtherOpcodeType 0)) None"

definition literalToken :: "string \<Rightarrow> Token" where
  "literalToken s = Token Nat s 1 1 0 None None"

definition blockToken :: Token where
  "blockToken = Token Block ''block'' 3 9 27 (Some (OtherOpcodeType 2)) None"


text \<open>
  \<^verbatim>\<open>i32.const 0\<close>; \<^verbatim>\<open>(i32.add (i32.const 0) (i32.const 0))\<close>;
  \<^verbatim>\<open>i32.const 0 i64.const 0 i64.store\<close> and the same with the two constants swapped;
  \<^verbatim>\<open>(block $L nop)\<close>; the blocks the constructor builds for
  \<^verbatim>\<open>(block (param i32 i32) (result i32) i32.add)\<close> and for
  \<^verbatim>\<open>(block (param i32 i32) (result i32) (i32.add))\<close>.
\<close>

definition constI32 :: TokenExpression where
  "constI32 = UnfoldedTokenExpression
     [TokenOperand (opcodeToken ''i32.const''), TokenOperand (literalToken ''0'')]"

definition addTree :: TokenExpression where
  "addTree = OperationTree (opcodeToken ''i32.add'')
     [ExpressionOperand constI32, ExpressionOperand constI32]"

definition storeSequence :: TokenExpression where
  "storeSequence = UnfoldedTokenExpression
     [TokenOperand (opcodeToken ''i32.const''), TokenOperand (literalToken ''0''),
      TokenOperand (opcodeToken ''i64.const''), TokenOperand (literalToken ''0''),
      TokenOperand (opcodeToken ''i64.store'')]"

definition storeSequenceSwapped :: TokenExpression where
  "storeSequenceSwapped = UnfoldedTokenExpression
     [TokenOperand (opcodeToken ''i64.const''), TokenOperand (literalToken ''0''),
      TokenOperand (opcodeToken ''i32.const''), TokenOperand (literalToken ''0''),
      TokenOperand (opcodeToken ''i64.store'')]"

definition nopBlock :: TokenExpression where
  "nopBlock = BlockExpression blockToken
     (UnfoldedTokenExpression [TokenOperand (opcodeToken ''nop'')]) (Some ''$L'')"

definition addBlock :: TokenExpression where
  "addBlock = BlockExpression blockToken
     (UnfoldedTokenExpression [TokenOperand (opcodeToken ''i32.add'')]) None"

definition foldedAddBlock :: TokenExpression where
  "foldedAddBlock = BlockExpression blockToken (OperationTree (opcodeToken ''i32.add'') []) None"

section \<open>Properties\<close>

subsection \<open>Loops over entries\<close>

lemma isEqual_eq: "isEqual a b = (a = b)"
  by (auto simp: isEqual_def)

lemma entriesFind_None: "entriesFind p xs k = None \<longleftrightarrow> (\<forall>x\<in>set xs. \<not> p x)"
  by (induction xs arbitrary: k) auto

lemma entriesFind_Some:
  "entriesFind p xs k = Some i \<longleftrightarrow>
     (k \<le> i \<and> i - k < length xs \<and> p (xs ! (i - k)) \<and> (\<forall>j < i - k. \<not> p (xs ! j)))"
proof (induction xs arbitrary: k)
  case Nil
  then show ?case by simp
next
  case (Cons x xs)
  show ?case
  proof (cases "p x")
    case True
    have "(\<forall>j < i - k. \<not> p ((x # xs) ! j)) \<longleftrightarrow> i - k = 0"
      using True by (cases "i - k") auto
    then show ?thesis using True by auto
  next
    case False
    have "entriesFind p (x # xs) k = Some i \<longleftrightarrow> entriesFind p xs (Suc k) = Some i"
      using False by simp
    also have "\<dots> \<longleftrightarrow> (Suc k \<le> i \<and> i - Suc k < length xs \<and> p (xs ! (i - Suc k)) \<and> (\<forall>j < i - Suc k. \<not> p (xs ! j)))"
      by (rule Cons.IH)
    also have "\<dots> \<longleftrightarrow> (k \<le> i \<and> i - k < length (x # xs) \<and> p ((x # xs) ! (i - k)) \<and> (\<forall>j < i - k. \<not> p ((x # xs) ! j)))"
    proof (cases "Suc k \<le> i")
      case True
      then obtain d where d: "i - k = Suc d" "i - Suc k = d"
        by (metis Suc_diff_Suc Suc_le_lessD)
      show ?thesis using True False d
        by (auto simp: less_Suc_eq_0_disj)
    next
      case F2: False
      then have "i - k = 0" by simp
      then show ?thesis using F2 False by auto
    qed
    finally show ?thesis .
  qed
qed

lemma entriesFind_0:
  "entriesFind p xs 0 = Some i \<longleftrightarrow> (i < length xs \<and> p (xs ! i) \<and> (\<forall>j < i. \<not> p (xs ! j)))"
  by (simp add: entriesFind_Some)

lemma entriesFind_exists:
  "(\<exists>i. entriesFind p xs k = Some i) \<longleftrightarrow> (\<exists>x\<in>set xs. p x)"
  using entriesFind_None [of p xs k] by (cases "entriesFind p xs k") auto


subsection \<open>Resolving the index of a global type\<close>

text \<open>
  C3. If some entry of \<open>globalTypes\<close> is structurally equal to \<open>t\<close>, then
  \<open>resolveGlobalTypeIndex\<close> returns the index of the first such entry; if no entry is
  structurally equal, the call raises the assertion error, so it returns no index.
\<close>

theorem resolveGlobalTypeIndex_first:
  "((\<exists>x \<in> set (globalTypes m). isEqual x t) \<longrightarrow>
      (\<exists>i. resolveGlobalTypeIndex m t = Inr i \<and> i < length (globalTypes m) \<and>
           isEqual (globalTypes m ! i) t \<and> (\<forall>j < i. \<not> isEqual (globalTypes m ! j) t)))
   \<and> ((\<forall>x \<in> set (globalTypes m). \<not> isEqual x t) \<longrightarrow> resolveGlobalTypeIndex m t = Inl AssertionError)"
proof (intro conjI impI)
  assume "\<exists>x \<in> set (globalTypes m). isEqual x t"
  then obtain i where i: "entriesFind (\<lambda>existing_type. isEqual existing_type t) (globalTypes m) 0 = Some i"
    using entriesFind_exists [of "\<lambda>existing_type. isEqual existing_type t" "globalTypes m" 0] by blast
  then have "resolveGlobalTypeIndex m t = Inr i"
    by (simp add: resolveGlobalTypeIndex_def)
  with i show "\<exists>i. resolveGlobalTypeIndex m t = Inr i \<and> i < length (globalTypes m) \<and>
           isEqual (globalTypes m ! i) t \<and> (\<forall>j < i. \<not> isEqual (globalTypes m ! j) t)"
    by (auto simp: entriesFind_0)
next
  assume "\<forall>x \<in> set (globalTypes m). \<not> isEqual x t"
  then have "entriesFind (\<lambda>existing_type. isEqual existing_type t) (globalTypes m) 0 = None"
    by (simp add: entriesFind_None)
  then show "resolveGlobalTypeIndex m t = Inl AssertionError"
    by (simp add: resolveGlobalTypeIndex_def)
qed

theorem resolveGlobalTypeIndex_first_witness:
  "resolveGlobalTypeIndex (emptyModule\<lparr>globalTypes := [FunctionSignature_new [] [], FunctionSignature_new [I32] [I32], FunctionSignature_new [I32] [I32]]\<rparr>)
      (FunctionSignature_new [I32] [I32]) = Inr 1
   \<and> resolveGlobalTypeIndex (emptyModule\<lparr>globalTypes := [FunctionSignature_new [] []]\<rparr>)
      (FunctionSignature_new [I32] [I32]) = Inl AssertionError"
proof -
  let ?m = "emptyModule\<lparr>globalTypes := [FunctionSignature_new [] [], FunctionSignature_new [I32] [I32], FunctionSignature_new [I32] [I32]]\<rparr>"
  let ?m2 = "emptyModule\<lparr>globalTypes := [FunctionSignature_new [] []]\<rparr>"
  let ?t = "FunctionSignature_new [I32] [I32]"
  have h1: "\<exists>x \<in> set (globalTypes ?m). isEqual x ?t"
    by (simp add: isEqual_def FunctionSignature_new_def emptyModule_def)
  have h2: "\<forall>x \<in> set (globalTypes ?m2). \<not> isEqual x ?t"
    by (simp add: isEqual_def FunctionSignature_new_def emptyModule_def)
  from resolveGlobalTypeIndex_first [of ?m ?t] h1
  obtain i where i: "resolveGlobalTypeIndex ?m ?t = Inr i" "i < length (globalTypes ?m)"
      "isEqual (globalTypes ?m ! i) ?t" "\<forall>j < i. \<not> isEqual (globalTypes ?m ! j) ?t"
    by blast
  have "i = 1"
  proof -
    have "\<not> isEqual (globalTypes ?m ! 0) ?t" by (simp add: isEqual_def FunctionSignature_new_def emptyModule_def)
    with i(3) have "i \<noteq> 0" by metis
    moreover have "isEqual (globalTypes ?m ! 1) ?t" by (simp add: isEqual_def FunctionSignature_new_def emptyModule_def)
    with i(4) have "\<not> 1 < i" by blast
    ultimately show ?thesis by simp
  qed
  with i(1) have a: "resolveGlobalTypeIndex ?m ?t = Inr 1" by simp
  from resolveGlobalTypeIndex_first [of ?m2 ?t] h2
  have b: "resolveGlobalTypeIndex ?m2 ?t = Inl AssertionError" by blast
  from a b show ?thesis by simp
qed


subsection \<open>Resolving the index of a parameter or local\<close>

text \<open>
  C9. \<open>resolveVariableIndex f x\<close> returns \<open>i\<close> exactly when \<open>i\<close> is the smallest index of
  the parameter-name slots followed by the local-name slots whose slot holds \<open>x\<close>; a name
  held by a parameter slot resolves to an index below the number of parameters whose parameter
  slot holds \<open>x\<close>; the call fails exactly when no slot holds \<open>x\<close>, and then with the
  name-resolution error.
\<close>

theorem resolveVariableIndex_smallest:
  "(resolveVariableIndex f x = Inr i \<longleftrightarrow>
      (i < length (paramNames f @ localNames f) \<and> (paramNames f @ localNames f) ! i = Some x \<and>
       (\<forall>j < i. (paramNames f @ localNames f) ! j \<noteq> Some x)))
   \<and> (Some x \<in> set (paramNames f) \<longrightarrow>
        (\<exists>k. resolveVariableIndex f x = Inr k \<and> k < length (paramNames f) \<and> paramNames f ! k = Some x))
   \<and> ((\<exists>e. resolveVariableIndex f x = Inl e) \<longleftrightarrow> Some x \<notin> set (paramNames f @ localNames f))
   \<and> (Some x \<notin> set (paramNames f @ localNames f) \<longrightarrow> resolveVariableIndex f x = Inl (NameNotFound x))"
proof -
  let ?p = "\<lambda>name. name = Some x"
  let ?xs = "paramNames f @ localNames f"
  have A: "resolveVariableIndex f x = Inr i \<longleftrightarrow> entriesFind ?p ?xs 0 = Some i" for i
    by (auto simp: resolveVariableIndex_def split: option.splits)
  have B: "(\<exists>e. resolveVariableIndex f x = Inl e) \<longleftrightarrow> entriesFind ?p ?xs 0 = None"
    by (auto simp: resolveVariableIndex_def split: option.splits)
  have C: "entriesFind ?p ?xs 0 = None \<Longrightarrow> resolveVariableIndex f x = Inl (NameNotFound x)"
    by (auto simp: resolveVariableIndex_def split: option.splits)
  have 1: "resolveVariableIndex f x = Inr i \<longleftrightarrow>
      (i < length ?xs \<and> ?xs ! i = Some x \<and> (\<forall>j < i. ?xs ! j \<noteq> Some x))"
    unfolding A by (rule entriesFind_0)
  have 2: "\<exists>k. resolveVariableIndex f x = Inr k \<and> k < length (paramNames f) \<and> paramNames f ! k = Some x"
    if mem: "Some x \<in> set (paramNames f)"
  proof -
    from mem obtain n where n: "n < length (paramNames f)" "paramNames f ! n = Some x"
      by (auto simp: in_set_conv_nth)
    from mem have "\<exists>y \<in> set ?xs. ?p y" by auto
    then obtain k where k: "entriesFind ?p ?xs 0 = Some k"
      using entriesFind_exists [of ?p ?xs 0] by blast
    then have kk: "k < length ?xs" "?xs ! k = Some x" "\<forall>j < k. ?xs ! j \<noteq> Some x"
      by (auto simp: entriesFind_0)
    have "\<not> n < k"
    proof
      assume "n < k"
      with kk(3) have "?xs ! n \<noteq> Some x" by blast
      with n show False by (simp add: nth_append)
    qed
    then have "k < length (paramNames f)" using n(1) by simp
    moreover from this kk(2) have "paramNames f ! k = Some x" by (simp add: nth_append)
    moreover from k have "resolveVariableIndex f x = Inr k" by (simp add: A)
    ultimately show ?thesis by blast
  qed
  have 3: "(\<exists>e. resolveVariableIndex f x = Inl e) \<longleftrightarrow> Some x \<notin> set ?xs"
    unfolding B entriesFind_None by auto
  have 4: "Some x \<notin> set ?xs \<Longrightarrow> resolveVariableIndex f x = Inl (NameNotFound x)"
    by (rule C) (auto simp: entriesFind_None)
  from 1 2 3 4 show ?thesis by blast
qed


theorem resolveVariableIndex_smallest_witness:
  "resolveVariableIndex exampleFunction ''$a'' = Inr 0
   \<and> (\<exists>k. resolveVariableIndex exampleFunction ''$b'' = Inr k \<and> k < 3
          \<and> paramNames exampleFunction ! k = Some ''$b'')
   \<and> resolveVariableIndex exampleFunction ''$z'' = Inl (NameNotFound ''$z'')"
proof -
  have names: "paramNames exampleFunction @ localNames exampleFunction
                 = [Some ''$a'', None, Some ''$b'', Some ''$a'', Some ''$c'']"
    by (simp add: exampleFunction_def)
  have a: "resolveVariableIndex exampleFunction ''$a'' = Inr 0"
    using resolveVariableIndex_smallest [of exampleFunction "''$a''" 0]
    by (simp add: names)
  have "Some ''$b'' \<in> set (paramNames exampleFunction)"
    by (simp add: exampleFunction_def)
  with resolveVariableIndex_smallest [of exampleFunction "''$b''" 0]
  have b: "\<exists>k. resolveVariableIndex exampleFunction ''$b'' = Inr k
             \<and> k < length (paramNames exampleFunction)
             \<and> paramNames exampleFunction ! k = Some ''$b''"
    by blast
  have "Some ''$z'' \<notin> set (paramNames exampleFunction @ localNames exampleFunction)"
    by (simp add: names)
  with resolveVariableIndex_smallest [of exampleFunction "''$z''" 0]
  have c: "resolveVariableIndex exampleFunction ''$z'' = Inl (NameNotFound ''$z'')"
    by blast
  have "length (paramNames exampleFunction) = 3"
    by (simp add: exampleFunction_def)
  with a b c show ?thesis by simp
qed

subsection \<open>The type section holds every signature once\<close>

lemma exampleOps_run: "applyOps emptyModule exampleOps = Inr exampleModule"
  by (simp add: exampleOps_def exampleModule_def emptyModule_def addFunctionExpression_def
      addGlobalType_def addExportExpression_def FunctionExpression_getSignature_def fnA_def fnB_def
      isEqual_def FunctionSignature_new_def Let_def)

lemma existsEqual_iff: "existsEqual ts t \<longleftrightarrow> (\<exists>x \<in> set ts. isEqual x t)"
  by (induction ts) auto

lemma addGlobalType_present:
  "\<exists>x \<in> set (globalTypes m). isEqual x t \<Longrightarrow> addGlobalType m t = m"
  by (simp add: addGlobalType_def existsEqual_iff)

lemma addGlobalType_absent:
  "\<forall>x \<in> set (globalTypes m). \<not> isEqual x t \<Longrightarrow>
     globalTypes (addGlobalType m t) = globalTypes m @ [t]"
  by (simp add: addGlobalType_def existsEqual_iff)

lemma addGlobalType_distinct:
  "distinct (globalTypes m) \<Longrightarrow> distinct (globalTypes (addGlobalType m t))"
  by (auto simp: addGlobalType_def existsEqual_iff isEqual_eq)

lemma addGlobalType_extends:
  "\<exists>ys. globalTypes (addGlobalType m t) = globalTypes m @ ys"
  by (simp add: addGlobalType_def)

lemma addFunctionExpression_globalTypes:
  "addFunctionExpression m f = Inr m' \<Longrightarrow>
     globalTypes m' = globalTypes (addGlobalType m (functionSignature f))"
  by (auto simp: addFunctionExpression_def Let_def addExportExpression_def addGlobalType_def
      FunctionExpression_getSignature_def split: if_splits option.splits)

lemma applyOps_distinct:
  "distinct (globalTypes m) \<Longrightarrow> applyOps m ops = Inr m' \<Longrightarrow> distinct (globalTypes m')"
proof (induction m ops rule: applyOps.induct)
  case (1 m)
  then show ?case by simp
next
  case (2 m t rest)
  then show ?case by (simp add: addGlobalType_distinct)
next
  case (3 m f rest)
  from "3.prems"(2) obtain m1 where m1: "addFunctionExpression m f = Inr m1" "applyOps m1 rest = Inr m'"
    by (auto split: sum.splits)
  have "distinct (globalTypes m1)"
    using addFunctionExpression_globalTypes [OF m1(1)] "3.prems"(1)
    by (simp add: addGlobalType_distinct)
  with "3.IH" m1 show ?case by simp
next
  case (4 m e rest)
  then show ?case by (simp add: addExportExpression_def)
qed

lemma applyOps_extends:
  "applyOps m ops = Inr m' \<Longrightarrow> \<exists>ys. globalTypes m' = globalTypes m @ ys"
proof (induction m ops rule: applyOps.induct)
  case (1 m)
  then show ?case by simp
next
  case (2 m t rest)
  then obtain ys where "globalTypes m' = globalTypes (addGlobalType m t) @ ys" by auto
  moreover obtain zs where "globalTypes (addGlobalType m t) = globalTypes m @ zs"
    using addGlobalType_extends by blast
  ultimately show ?case by simp
next
  case (3 m f rest)
  from "3.prems" obtain m1 where m1: "addFunctionExpression m f = Inr m1" "applyOps m1 rest = Inr m'"
    by (auto split: sum.splits)
  with "3.IH" obtain ys where "globalTypes m' = globalTypes m1 @ ys" by auto
  moreover obtain zs where "globalTypes m1 = globalTypes m @ zs"
    using addFunctionExpression_globalTypes [OF m1(1)] addGlobalType_extends by metis
  ultimately show ?case by simp
next
  case (4 m e rest)
  then show ?case by (simp add: addExportExpression_def)
qed

lemma resolveGlobalTypeIndex_append:
  assumes "resolveGlobalTypeIndex m t = Inr i" and "globalTypes m' = globalTypes m @ ys"
  shows "resolveGlobalTypeIndex m' t = Inr i"
proof -
  let ?p = "\<lambda>existing_type. isEqual existing_type t"
  from assms(1) have "entriesFind ?p (globalTypes m) 0 = Some i"
    by (auto simp: resolveGlobalTypeIndex_def split: option.splits)
  then have i: "i < length (globalTypes m)" "?p (globalTypes m ! i)"
    "\<forall>j < i. \<not> ?p (globalTypes m ! j)"
    by (auto simp: entriesFind_0)
  have "entriesFind ?p (globalTypes m @ ys) 0 = Some i"
    unfolding entriesFind_0 using i by (auto simp: nth_append)
  then show ?thesis by (simp add: resolveGlobalTypeIndex_def assms(2))
qed

text \<open>The constructor of \<^verbatim>\<open>ModuleExpression\<close> is such a sequence of additions.\<close>

lemma addChildren_applyOps: "addChildren m childNodes = applyOps m (map childOp childNodes)"
  by (induction m childNodes rule: addChildren.induct) (auto split: sum.splits)

lemma ModuleExpression_new_applyOps:
  "ModuleExpression_new childNodes = applyOps emptyModule (map childOp childNodes)"
  by (simp add: ModuleExpression_new_def addChildren_applyOps)

text \<open>
  C2. In a module reached from the empty one by any sequence of additions of types, functions
  and exports, no two entries of \<open>globalTypes\<close> are structurally equal; adding a type, or a
  function whose signature is, structurally equal to an entry leaves \<open>globalTypes\<close> unchanged;
  and the index a type resolves to stays the same however many further additions follow.
\<close>

theorem globalTypes_deduplicated:
  assumes "applyOps emptyModule ops = Inr m"
  shows "(\<forall>i j. i < j \<and> j < length (globalTypes m) \<longrightarrow>
            \<not> isEqual (globalTypes m ! i) (globalTypes m ! j))
     \<and> (\<forall>t. (\<exists>x \<in> set (globalTypes m). isEqual x t) \<longrightarrow>
            globalTypes (addGlobalType m t) = globalTypes m)
     \<and> (\<forall>f m'. (\<exists>x \<in> set (globalTypes m). isEqual x (FunctionExpression_getSignature f)) \<and>
            addFunctionExpression m f = Inr m' \<longrightarrow> globalTypes m' = globalTypes m)
     \<and> (\<forall>t i more m'. resolveGlobalTypeIndex m t = Inr i \<and> applyOps m more = Inr m' \<longrightarrow>
            resolveGlobalTypeIndex m' t = Inr i)"
proof (intro conjI allI impI)
  have "distinct (globalTypes emptyModule)" by (simp add: emptyModule_def)
  then have d: "distinct (globalTypes m)" using assms by (rule applyOps_distinct)
  fix i j assume "i < j \<and> j < length (globalTypes m)"
  with d have "globalTypes m ! i \<noteq> globalTypes m ! j"
    by (auto simp: distinct_conv_nth)
  then show "\<not> isEqual (globalTypes m ! i) (globalTypes m ! j)"
    by (simp add: isEqual_eq)
next
  fix t assume "\<exists>x \<in> set (globalTypes m). isEqual x t"
  then show "globalTypes (addGlobalType m t) = globalTypes m"
    by (simp add: addGlobalType_present)
next
  fix f m'
  assume a: "(\<exists>x \<in> set (globalTypes m). isEqual x (FunctionExpression_getSignature f)) \<and>
            addFunctionExpression m f = Inr m'"
  then have "globalTypes m' = globalTypes (addGlobalType m (functionSignature f))"
    by (simp add: addFunctionExpression_globalTypes)
  with a show "globalTypes m' = globalTypes m"
    by (simp add: addGlobalType_present FunctionExpression_getSignature_def)
next
  fix t i more m'
  assume a: "resolveGlobalTypeIndex m t = Inr i \<and> applyOps m more = Inr m'"
  then obtain ys where "globalTypes m' = globalTypes m @ ys"
    using applyOps_extends by blast
  with a show "resolveGlobalTypeIndex m' t = Inr i"
    using resolveGlobalTypeIndex_append by blast
qed

theorem globalTypes_deduplicated_witness:
  "applyOps emptyModule exampleOps = Inr exampleModule
   \<and> length (globalTypes exampleModule) = 2
   \<and> \<not> isEqual (globalTypes exampleModule ! 0) (globalTypes exampleModule ! 1)
   \<and> globalTypes (addGlobalType exampleModule (FunctionSignature_new [] [])) = globalTypes exampleModule"
proof -
  note t = globalTypes_deduplicated [OF exampleOps_run]
  have len: "length (globalTypes exampleModule) = 2" by (simp add: exampleModule_def)
  from t have "(0::nat) < 1 \<and> 1 < length (globalTypes exampleModule) \<longrightarrow>
      \<not> isEqual (globalTypes exampleModule ! 0) (globalTypes exampleModule ! 1)"
    by blast
  then have a: "\<not> isEqual (globalTypes exampleModule ! 0) (globalTypes exampleModule ! 1)"
    by (simp add: len)
  have "\<exists>x \<in> set (globalTypes exampleModule). isEqual x (FunctionSignature_new [] [])"
    by (simp add: exampleModule_def isEqual_def)
  with t have b: "globalTypes (addGlobalType exampleModule (FunctionSignature_new [] [])) = globalTypes exampleModule"
    by blast
  from exampleOps_run len a b show ?thesis by simp
qed


subsection \<open>Inline exports\<close>

lemma FunctionExpression_new_inlineExport:
  "FunctionExpression_new fname exportNm pTypes pNames rTypes lTypes lNames bdy = Inr f \<Longrightarrow>
     hasInlineExport f = (inlineExportName f \<noteq> None) \<and> inlineExportName f = exportNm"
  by (auto simp: FunctionExpression_new_def split: if_splits)

lemma ExportExpression_new_inline:
  "ExportExpression_new extractName parseInt (Inl name) (Inl ty) (Inl n)
     = Inr (ExportExpression_inline name ty n)"
  by (simp add: ExportExpression_new_def ExportExpression_inline_def)

text \<open>
  C8. Adding a function (one whose \<open>hasInlineExport\<close> flag says whether it carries an
  inline-export name, as the constructor sets it) succeeds and puts the function at the end of
  \<open>functions\<close>. If it carries an inline-export name, exactly one export is appended: its name
  is the inline-export name, its kind \<open>Func\<close>, its reference the index of the function just
  added, with no symbolic reference; otherwise no export is appended.
\<close>

theorem addFunctionExpression_inlineExport:
  assumes "hasInlineExport f = (inlineExportName f \<noteq> None)"
  shows "\<exists>m'. addFunctionExpression m f = Inr m'
           \<and> functions m' = functions m @ [f]
           \<and> functions m' ! length (functions m) = f
           \<and> exportExpressions m' = exportExpressions m @
               (case inlineExportName f of
                  None \<Rightarrow> []
                | Some name \<Rightarrow>
                    [\<lparr> exportName = name, exportType = ExportFunc,
                       exportReferenceIndex = Some (Number (int (length (functions m)))),
                       exportReferenceName = None \<rparr>])"
proof (cases "inlineExportName f")
  case None
  with assms have "\<not> hasInlineExport f" by simp
  with None show ?thesis
    by (simp add: addFunctionExpression_def Let_def addGlobalType_def)
next
  case (Some name)
  with assms have "hasInlineExport f" by simp
  with Some show ?thesis
    by (simp add: addFunctionExpression_def Let_def addGlobalType_def addExportExpression_def
        ExportExpression_inline_def)
qed

theorem addFunctionExpression_inlineExport_witness:
  "(\<exists>m'. addFunctionExpression exampleModule fnB = Inr m'
         \<and> functions m' ! 3 = fnB
         \<and> exportExpressions m' = exportExpressions exampleModule @
              [\<lparr> exportName = ''fn'', exportType = ExportFunc,
                 exportReferenceIndex = Some (Number 3), exportReferenceName = None \<rparr>])
   \<and> (\<exists>m'. addFunctionExpression exampleModule fnA = Inr m'
         \<and> functions m' ! 3 = fnA
         \<and> exportExpressions m' = exportExpressions exampleModule)"
proof -
  have hB: "hasInlineExport fnB = (inlineExportName fnB \<noteq> None)" by (simp add: fnB_def)
  have hA: "hasInlineExport fnA = (inlineExportName fnA \<noteq> None)" by (simp add: fnA_def)
  have len: "length (functions exampleModule) = 3" by (simp add: exampleModule_def)
  have nB: "inlineExportName fnB = Some ''fn''" by (simp add: fnB_def)
  have nA: "inlineExportName fnA = None" by (simp add: fnA_def)
  from addFunctionExpression_inlineExport [OF hB, of exampleModule]
  have b: "\<exists>m'. addFunctionExpression exampleModule fnB = Inr m'
         \<and> functions m' ! 3 = fnB
         \<and> exportExpressions m' = exportExpressions exampleModule @
              [\<lparr> exportName = ''fn'', exportType = ExportFunc,
                 exportReferenceIndex = Some (Number 3), exportReferenceName = None \<rparr>]"
    by (auto simp: len nB)
  from addFunctionExpression_inlineExport [OF hA, of exampleModule]
  have a: "\<exists>m'. addFunctionExpression exampleModule fnA = Inr m'
         \<and> functions m' ! 3 = fnA
         \<and> exportExpressions m' = exportExpressions exampleModule"
    by (auto simp: len nA)
  from a b show ?thesis by simp
qed

subsection \<open>The reference of an export\<close>

text \<open>
  C10. A successfully constructed \<open>ExportExpression\<close> has exactly one of
  \<open>exportReferenceIndex\<close> and \<open>exportReferenceName\<close> set: a numeric argument sets the index
  to itself, a \<open>Nat\<close> token sets the index to its parsed lexeme, both leaving the name null; a
  \<open>Var\<close> token sets the name to its lexeme and leaves the index null; any other reference
  token makes the constructor throw. The constructor succeeds exactly when the name is a
  string or a \<open>Text\<close> token, the kind an \<open>ExportType\<close> or a \<open>Func\<close> token, and the
  reference a number, a \<open>Nat\<close> or a \<open>Var\<close> token.
\<close>

theorem ExportExpression_reference:
  "(ExportExpression_new extractName parseInt name ty reference = Inr e \<longrightarrow>
       ((exportReferenceIndex e = None) \<noteq> (exportReferenceName e = None))
     \<and> (\<forall>n. reference = Inl n \<longrightarrow>
            exportReferenceIndex e = Some n \<and> exportReferenceName e = None)
     \<and> (\<forall>t. reference = Inr t \<and> tokenType t = Nat \<longrightarrow>
            exportReferenceIndex e = Some (parseInt (lexeme t)) \<and> exportReferenceName e = None)
     \<and> (\<forall>t. reference = Inr t \<and> tokenType t = Var \<longrightarrow>
            exportReferenceIndex e = None \<and> exportReferenceName e = Some (lexeme t)))
   \<and> (\<forall>t. reference = Inr t \<and> tokenType t \<noteq> Nat \<and> tokenType t \<noteq> Var \<longrightarrow>
          (\<exists>err. ExportExpression_new extractName parseInt name ty reference = Inl err))
   \<and> ((\<exists>e'. ExportExpression_new extractName parseInt name ty reference = Inr e') \<longleftrightarrow>
          (case name of Inl str \<Rightarrow> True | Inr t \<Rightarrow> tokenType t = Text)
        \<and> (case ty of Inl et \<Rightarrow> True | Inr t \<Rightarrow> tokenType t = Func)
        \<and> (case reference of Inl n \<Rightarrow> True | Inr t \<Rightarrow> tokenType t = Nat \<or> tokenType t = Var))"
  by (cases name; cases ty; cases reference)
     (auto simp: ExportExpression_new_def getExportName_def getExportType_def
           split: sum.splits TokenType.splits if_splits)

theorem ExportExpression_reference_witness:
  "(\<exists>e. ExportExpression_new lexeme exampleParseInt (Inr nameToken) (Inr funcToken) (Inr natToken) = Inr e
        \<and> exportReferenceIndex e = Some (Number 3) \<and> exportReferenceName e = None)
   \<and> (\<exists>e. ExportExpression_new lexeme exampleParseInt (Inr nameToken) (Inr funcToken) (Inr varToken) = Inr e
        \<and> exportReferenceIndex e = None \<and> exportReferenceName e = Some ''$b'')
   \<and> (\<exists>e. ExportExpression_new lexeme exampleParseInt (Inl ''fn'') (Inl ExportFunc) (Inl (Number 0)) = Inr e
        \<and> exportReferenceIndex e = Some (Number 0) \<and> exportReferenceName e = None)
   \<and> (\<exists>err. ExportExpression_new lexeme exampleParseInt (Inr nameToken) (Inr funcToken) (Inr funcToken) = Inl err)"
proof -
  have 1: "\<exists>e. ExportExpression_new lexeme exampleParseInt (Inr nameToken) (Inr funcToken) (Inr natToken) = Inr e
        \<and> exportReferenceIndex e = Some (Number 3) \<and> exportReferenceName e = None"
  proof -
    from ExportExpression_reference [of lexeme exampleParseInt "Inr nameToken" "Inr funcToken" "Inr natToken"]
    obtain e where e: "ExportExpression_new lexeme exampleParseInt (Inr nameToken) (Inr funcToken) (Inr natToken) = Inr e"
      by (auto simp: nameToken_def funcToken_def natToken_def)
    with ExportExpression_reference [of lexeme exampleParseInt "Inr nameToken" "Inr funcToken" "Inr natToken" e]
    have "exportReferenceIndex e = Some (exampleParseInt (lexeme natToken)) \<and> exportReferenceName e = None"
      by (simp add: natToken_def)
    with e show ?thesis by (simp add: natToken_def exampleParseInt_def)
  qed
  have 2: "\<exists>e. ExportExpression_new lexeme exampleParseInt (Inr nameToken) (Inr funcToken) (Inr varToken) = Inr e
        \<and> exportReferenceIndex e = None \<and> exportReferenceName e = Some ''$b''"
  proof -
    from ExportExpression_reference [of lexeme exampleParseInt "Inr nameToken" "Inr funcToken" "Inr varToken"]
    obtain e where e: "ExportExpression_new lexeme exampleParseInt (Inr nameToken) (Inr funcToken) (Inr varToken) = Inr e"
      by (auto simp: nameToken_def funcToken_def varToken_def)
    with ExportExpression_reference [of lexeme exampleParseInt "Inr nameToken" "Inr funcToken" "Inr varToken" e]
    have "exportReferenceIndex e = None \<and> exportReferenceName e = Some (lexeme varToken)"
      by (simp add: varToken_def)
    with e show ?thesis by (simp add: varToken_def)
  qed
  have 3: "\<exists>e. ExportExpression_new lexeme exampleParseInt (Inl ''fn'') (Inl ExportFunc) (Inl (Number 0)) = Inr e
        \<and> exportReferenceIndex e = Some (Number 0) \<and> exportReferenceName e = None"
  proof -
    from ExportExpression_reference [of lexeme exampleParseInt "Inl ''fn''" "Inl ExportFunc" "Inl (Number 0)"]
    obtain e where e: "ExportExpression_new lexeme exampleParseInt (Inl ''fn'') (Inl ExportFunc) (Inl (Number 0)) = Inr e"
      by auto
    with ExportExpression_reference [of lexeme exampleParseInt "Inl ''fn''" "Inl ExportFunc" "Inl (Number 0)" e]
    have "exportReferenceIndex e = Some (Number 0) \<and> exportReferenceName e = None"
      by simp
    with e show ?thesis by simp
  qed
  have 4: "\<exists>err. ExportExpression_new lexeme exampleParseInt (Inr nameToken) (Inr funcToken) (Inr funcToken) = Inl err"
    using ExportExpression_reference [of lexeme exampleParseInt "Inr nameToken" "Inr funcToken" "Inr funcToken"]
    by (simp add: funcToken_def)
  from 1 2 3 4 show ?thesis by simp
qed

subsection \<open>Type resolution\<close>

lemmas example_defs =
  exampleEffects_def opcodeToken_def literalToken_def blockToken_def constI32_def addTree_def
  storeSequence_def storeSequenceSwapped_def nopBlock_def addBlock_def foldedAddBlock_def
  Token_getConsumedTypes_def Token_getReturnTypes_def applyEffect_def getConsumedTypes_def
  getReturnTypes_def FunctionSignature_new_def createEndToken_def

text \<open>
  The inner loop succeeds exactly when the top of the stack holds the consumed types with
  the first of them topmost, and it removes them.
\<close>

lemma popConsumed_Inr: "popConsumed cs st = Inr s \<longleftrightarrow> st = s @ rev cs"
proof (induction cs arbitrary: st)
  case Nil
  then show ?case by auto
next
  case (Cons c cs)
  have "st \<noteq> [] \<and> last st = c \<and> butlast st = s @ rev cs \<longleftrightarrow> st = s @ rev cs @ [c]"
    by (metis append_assoc snoc_eq_iff_butlast)
  with Cons.IH [of "butlast st"] show ?case by auto
qed

lemma popConsumed_Inl: "popConsumed cs st = Inl e \<Longrightarrow> e = TypeMismatch"
  by (induction cs arbitrary: st) (auto split: if_splits)

lemma applyEffect_Inr:
  "applyEffect st eff = Inr s \<longleftrightarrow> (\<exists>base. st = base @ rev (fst eff) \<and> s = base @ snd eff)"
proof (cases "popConsumed (fst eff) st")
  case (Inl e)
  then have "\<not> (\<exists>base. st = base @ rev (fst eff))"
    using popConsumed_Inr [of "fst eff" st] by auto
  with Inl show ?thesis by (auto simp: applyEffect_def)
next
  case (Inr base)
  then have "st = base @ rev (fst eff)" by (simp add: popConsumed_Inr)
  with Inr show ?thesis by (auto simp: applyEffect_def)
qed

lemma applyEffect_Inl: "applyEffect st eff = Inl e \<Longrightarrow> e = TypeMismatch"
  by (auto simp: applyEffect_def split: sum.splits dest: popConsumed_Inl)




lemma resolveTypes_consumed_empty:
  "resolveTypes T e = Inr (c, r) \<longrightarrow> c = []" and "(x::Operand) = x"
proof (induction e and x arbitrary: c r)
  case (BlockExpression h b l)
  show ?case
  proof (cases "resolveTypes T b")
    case (Inl e)
    then show ?thesis by simp
  next
    case (Inr pr)
    obtain c' r' where "pr = (c', r')" by (cases pr)
    with Inr BlockExpression.IH [of c' r'] show ?thesis
      by (simp add: FunctionSignature_new_def)
  qed
next
  case (OperationTree op xs)
  show ?case by (cases "runOperands T xs []") auto
next
  case (UnfoldedTokenExpression xs)
  show ?case by (cases "runOperands T xs []") auto
qed simp_all

lemma runOperands_typeError:
  assumes "\<And>x err. x \<in> set xs \<Longrightarrow> operandTypes T x = Inl err \<Longrightarrow> isTypeError err"
  shows "runOperands T xs st = Inl err \<Longrightarrow> isTypeError err"
  using assms
proof (induction xs arbitrary: st)
  case Nil
  then show ?case by simp
next
  case (Cons x xs)
  show ?case
  proof (cases "operandTypes T x")
    case (Inl e)
    with Cons.prems show ?thesis by auto
  next
    case (Inr eff)
    show ?thesis
    proof (cases "applyEffect st eff")
      case (Inl e)
      with Inr Cons.prems(1) have "err = e" by simp
      with Inl show ?thesis by (auto dest: applyEffect_Inl simp: isTypeError_def)
    next
      case r2: (Inr st')
      with Inr Cons.prems(1) have "runOperands T xs st' = Inl err" by simp
      then show ?thesis using Cons.IH Cons.prems(2) by auto
    qed
  qed
qed

lemma resolveTypes_typeError:
  "(resolveTypes T e = Inl err \<longrightarrow> isTypeError err)" and
  "(operandTypes T x = Inl err \<longrightarrow> isTypeError err)"
proof (induction e and x arbitrary: err and err)
  case (OperationTree op xs)
  show ?case
  proof
    assume a: "resolveTypes T (OperationTree op xs) = Inl err"
    show "isTypeError err"
    proof (cases "runOperands T xs []")
      case (Inl e)
      with a have "err = e" by simp
      with Inl show ?thesis using runOperands_typeError [of xs T "[]" err] OperationTree.IH by blast
    next
      case (Inr st)
      with a show ?thesis by (auto simp: isTypeError_def split: if_splits)
    qed
  qed
next
  case (UnfoldedTokenExpression xs)
  show ?case
  proof
    assume a: "resolveTypes T (UnfoldedTokenExpression xs) = Inl err"
    then have "runOperands T xs [] = Inl err" by (auto split: sum.splits)
    then show "isTypeError err"
      using runOperands_typeError [of xs T "[]" err] UnfoldedTokenExpression.IH by blast
  qed
next
  case EmptyTokenExpression
  then show ?case by simp
next
  case (BlockExpression h b l)
  then show ?case by (auto simp: Let_def split: sum.splits)
next
  case (TokenOperand t)
  then show ?case by simp
next
  case (ExpressionOperand e)
  then show ?case by simp
qed


lemma BlockExpression_types:
  "resolveTypes T (BlockExpression headerToken blockExpression label) =
     (case BlockExpression_getSignature T (BlockExpression headerToken blockExpression label) of
        Inl e \<Rightarrow> Inl e
      | Inr sig \<Rightarrow> Inr (paramTypes sig, returnTypes sig))"
  by (cases "resolveTypes T blockExpression")
     (auto simp: getReturnTypes_def getConsumedTypes_def FunctionSignature_new_def)

text \<open>
  C4. The claim is that the consumed types of an opcode token are popped in reverse of the
  declared order, the rightmost declared type against the top of the stack. The loop of
  \<open>resolveTypes\<close> walks them in declared order (\<open>popConsumed_Inr\<close>): after \<^verbatim>\<open>i32.const 0\<close> and
  \<^verbatim>\<open>i64.const 0\<close> the stack is \<open>[I32, I64]\<close>, and an opcode that consumes \<open>[I32, I64]\<close> is
  rejected, while the same opcode is accepted on the stack \<open>[I64, I32]\<close>.
\<close>

theorem resolveTypes_declared_order:
  "resolveTypes exampleEffects storeSequence = Inl TypeMismatch
   \<and> resolveTypes exampleEffects storeSequenceSwapped = Inr ([], [])"
  by (simp add: example_defs)

text \<open>
  C5, as the code has it. Type resolution of \<open>OperationTree operator operands\<close> runs the
  operands on an inner stack that starts empty. It succeeds exactly when that stack ends
  equal to the operator's consumed types, bottom first; it fails with a type error otherwise.
  On success the tree's \<open>getReturnTypes\<close> is the operator's return types and its
  \<open>getConsumedTypes\<close> is empty: on the enclosing stack the tree consumes nothing and pushes
  the operator's return types.
\<close>

theorem OperationTree_resolveTypes:
  "(resolveTypes T (OperationTree operator operands) = Inr (c, r) \<longleftrightarrow>
       runOperands T operands [] = Inr (Token_getConsumedTypes T operator)
       \<and> c = [] \<and> r = Token_getReturnTypes T operator)
   \<and> (\<forall>stack. runOperands T operands [] = Inr stack \<and> stack \<noteq> Token_getConsumedTypes T operator \<longrightarrow>
         resolveTypes T (OperationTree operator operands)
           = Inl (TypeMismatchExpected (Token_getConsumedTypes T operator) stack))
   \<and> (\<forall>err. resolveTypes T (OperationTree operator operands) = Inl err \<longrightarrow> isTypeError err)
   \<and> (getConsumedTypes T (OperationTree operator operands) = Inr c' \<longrightarrow> c' = [])
   \<and> (getReturnTypes T (OperationTree operator operands) = Inr r' \<longrightarrow>
         r' = Token_getReturnTypes T operator)
   \<and> (\<forall>outer. resolveTypes T (OperationTree operator operands) = Inr (c, r) \<longrightarrow>
         runOperands T [ExpressionOperand (OperationTree operator operands)] outer
           = Inr (outer @ Token_getReturnTypes T operator))"
proof (intro conjI allI impI)
  show "resolveTypes T (OperationTree operator operands) = Inr (c, r) \<longleftrightarrow>
       runOperands T operands [] = Inr (Token_getConsumedTypes T operator)
       \<and> c = [] \<and> r = Token_getReturnTypes T operator"
    by (cases "runOperands T operands []") auto
next
  fix stack
  assume "runOperands T operands [] = Inr stack \<and> stack \<noteq> Token_getConsumedTypes T operator"
  then show "resolveTypes T (OperationTree operator operands)
           = Inl (TypeMismatchExpected (Token_getConsumedTypes T operator) stack)"
    by simp
next
  fix err assume "resolveTypes T (OperationTree operator operands) = Inl err"
  then show "isTypeError err" using resolveTypes_typeError(1) by blast
next
  assume "getConsumedTypes T (OperationTree operator operands) = Inr c'"
  then show "c' = []"
    by (cases "runOperands T operands []") (auto simp: getConsumedTypes_def split: if_splits)
next
  assume "getReturnTypes T (OperationTree operator operands) = Inr r'"
  then show "r' = Token_getReturnTypes T operator"
    by (cases "runOperands T operands []") (auto simp: getReturnTypes_def split: if_splits)
next
  fix outer
  assume a: "resolveTypes T (OperationTree operator operands) = Inr (c, r)"
  then have "c = [] \<and> r = Token_getReturnTypes T operator"
    by (cases "runOperands T operands []") (auto split: if_splits)
  with a show "runOperands T [ExpressionOperand (OperationTree operator operands)] outer
           = Inr (outer @ Token_getReturnTypes T operator)"
    by (simp add: applyEffect_def)
qed

lemma addTree_operands:
  "runOperands exampleEffects [ExpressionOperand constI32, ExpressionOperand constI32] []
     = Inr [I32, I32]"
  by (simp add: example_defs)

theorem OperationTree_resolveTypes_witness:
  "resolveTypes exampleEffects addTree = Inr ([], [I32])
   \<and> runOperands exampleEffects [ExpressionOperand addTree] [I64] = Inr [I64, I32]
   \<and> resolveTypes exampleEffects (OperationTree (opcodeToken ''i64.store'')
         [ExpressionOperand constI32, ExpressionOperand constI32])
       = Inl (TypeMismatchExpected [I32, I64] [I32, I32])"
proof -
  have cons: "Token_getConsumedTypes exampleEffects (opcodeToken ''i32.add'') = [I32, I32]"
    and rets: "Token_getReturnTypes exampleEffects (opcodeToken ''i32.add'') = [I32]"
    and cons': "Token_getConsumedTypes exampleEffects (opcodeToken ''i64.store'') = [I32, I64]"
    by (simp_all add: example_defs)
  from OperationTree_resolveTypes [of exampleEffects "opcodeToken ''i32.add''"
      "[ExpressionOperand constI32, ExpressionOperand constI32]" "[]" "[I32]"]
  have a: "resolveTypes exampleEffects addTree = Inr ([], [I32])"
    unfolding addTree_def using addTree_operands cons rets by simp
  from OperationTree_resolveTypes [of exampleEffects "opcodeToken ''i32.add''"
      "[ExpressionOperand constI32, ExpressionOperand constI32]" "[]" "[I32]"] a
  have b: "runOperands exampleEffects [ExpressionOperand addTree] [I64] = Inr [I64, I32]"
    unfolding addTree_def rets by simp
  from OperationTree_resolveTypes [of exampleEffects "opcodeToken ''i64.store''"
      "[ExpressionOperand constI32, ExpressionOperand constI32]"] addTree_operands
  have c: "resolveTypes exampleEffects (OperationTree (opcodeToken ''i64.store'')
         [ExpressionOperand constI32, ExpressionOperand constI32])
       = Inl (TypeMismatchExpected [I32, I64] [I32, I32])"
    unfolding cons' by simp
  from a b c show ?thesis by simp
qed

text \<open>The tree \<^verbatim>\<open>(i32.add (i32.const 0) (i32.const 0))\<close> resolves, and its consumed types are
  empty, not the \<open>[I32, I32]\<close> its operator consumes.\<close>

theorem OperationTree_resolveTypes_counterexample:
  "getReturnTypes exampleEffects addTree = Inr [I32]
   \<and> getConsumedTypes exampleEffects addTree = Inr []
   \<and> Token_getConsumedTypes exampleEffects (opcodeToken ''i32.add'') = [I32, I32]"
  by (simp add: example_defs)

subsection \<open>The signature of a block\<close>

lemma BlockExpression_getSignature_params:
  "BlockExpression_getSignature T (BlockExpression headerToken blockExpression label) = Inr sig
     \<Longrightarrow> paramTypes sig = []"
  by (cases "resolveTypes T blockExpression")
     (auto simp: getReturnTypes_def getConsumedTypes_def FunctionSignature_new_def
           dest: resolveTypes_consumed_empty(1) [rule_format])

text \<open>In the revision that stores a \<^verbatim>\<open>BlockSignature\<close>, the signature of a constructed block
  is the one built from the constructor's types; in the revision with type resolution the
  constructor's signature has no effect on what is constructed.\<close>

lemma SignedBlockExpression_signature:
  "SignedBlockExpression_new headerToken name pTypes rTypes blockExpression = Inr b \<Longrightarrow>
     getSignatureType b = FunctionSignature_new pTypes rTypes
     \<and> (isEmpty (getSignatureType b) \<longleftrightarrow> pTypes = [] \<and> rTypes = [])"
  by (auto simp: SignedBlockExpression_new_def BlockSignature_new_def isEmpty_def
      FunctionSignature_new_def split: if_splits)

lemma SignedBlockExpression_new_total:
  "tokenType headerToken = Block \<or> tokenType headerToken = Loop \<or> tokenType headerToken = If \<Longrightarrow>
     \<exists>b. SignedBlockExpression_new headerToken name pTypes rTypes blockExpression = Inr b"
  by (auto simp: SignedBlockExpression_new_def BlockSignature_new_def)

lemma BlockExpression_new_ignores_signature:
  "BlockExpression_new headerToken sig1 blockExpression label
     = BlockExpression_new headerToken sig2 blockExpression label"
  by (simp add: BlockExpression_new_def)


text \<open>
  C6. The claim is that \<open>getSignature\<close> returns the signature given to the constructor. The
  constructor stores no signature: for \<^verbatim>\<open>(block (param i32) (result))\<close> with an empty body,
  constructed with the signature \<open>[I32] \<rightarrow> []\<close>, \<open>getSignature\<close> returns \<open>[] \<rightarrow> []\<close>, computed
  from the body.
\<close>

theorem BlockExpression_signature_not_stored:
  "BlockExpression_new blockToken (FunctionSignature_new [I32] []) EmptyTokenExpression None
     = Inr (BlockExpression blockToken EmptyTokenExpression None)
   \<and> BlockExpression_getSignature exampleEffects (BlockExpression blockToken EmptyTokenExpression None)
     = Inr (FunctionSignature_new [] [])
   \<and> FunctionSignature_new [] [] \<noteq> FunctionSignature_new [I32] []"
  by (simp add: BlockExpression_new_def example_defs)

subsection \<open>Unfolding\<close>

lemma flatMapUnfold_concat:
  "list_all2 (\<lambda>x ts'. unfoldOperand T x = Inr ts') xs tss \<Longrightarrow> flatMapUnfold T xs = Inr (concat tss)"
  by (induction xs tss rule: list_all2_induct) simp_all

lemma flatMapUnfold_Inr:
  "flatMapUnfold T xs = Inr ts \<Longrightarrow>
     \<exists>tss. list_all2 (\<lambda>x ts'. unfoldOperand T x = Inr ts') xs tss \<and> ts = concat tss"
proof (induction xs arbitrary: ts)
  case Nil
  then show ?case by simp
next
  case (Cons x xs)
  from Cons.prems obtain t1 t2 where
    t: "unfoldOperand T x = Inr t1" "flatMapUnfold T xs = Inr t2" "ts = t1 @ t2"
    by (cases "unfoldOperand T x"; cases "flatMapUnfold T xs") auto
  from Cons.IH [OF t(2)] obtain tss where
    tss: "list_all2 (\<lambda>x ts'. unfoldOperand T x = Inr ts') xs tss" "t2 = concat tss"
    by blast
  have "list_all2 (\<lambda>x ts'. unfoldOperand T x = Inr ts') (x # xs) (t1 # tss)"
    using t(1) tss(1) by simp
  moreover have "ts = concat (t1 # tss)" using t(3) tss(2) by simp
  ultimately show ?case by blast
qed

lemma flatMapUnfold_tokens: "flatMapUnfold T (map TokenOperand ts) = Inr ts"
  by (induction ts) auto

lemma flatMapUnfold_total:
  "(\<And>x. x \<in> set xs \<Longrightarrow> \<exists>ts. unfoldOperand T x = Inr ts) \<Longrightarrow> \<exists>ts. flatMapUnfold T xs = Inr ts"
proof (induction xs)
  case Nil
  then show ?case by simp
next
  case (Cons x xs)
  then obtain t1 t2 where "unfoldOperand T x = Inr t1" "flatMapUnfold T xs = Inr t2"
    by (meson list.set_intros)
  then show ?case by simp
qed

lemma signaturesResolve_unfold:
  "signaturesResolve T e \<longrightarrow> (\<exists>p. unfold T e = Inr p)" and
  "signaturesResolveOperand T x \<longrightarrow> (\<exists>ts. unfoldOperand T x = Inr ts)"
proof (induction e and x)
  case (OperationTree op xs)
  show ?case
  proof
    assume "signaturesResolve T (OperationTree op xs)"
    then have "\<And>x. x \<in> set xs \<Longrightarrow> \<exists>ts. unfoldOperand T x = Inr ts"
      using OperationTree.IH by (auto simp: list_all_iff)
    then obtain ts where "flatMapUnfold T xs = Inr ts" using flatMapUnfold_total by blast
    then show "\<exists>p. unfold T (OperationTree op xs) = Inr p" by simp
  qed
next
  case (UnfoldedTokenExpression xs)
  show ?case
  proof
    assume "signaturesResolve T (UnfoldedTokenExpression xs)"
    then have "\<And>x. x \<in> set xs \<Longrightarrow> \<exists>ts. unfoldOperand T x = Inr ts"
      using UnfoldedTokenExpression.IH by (auto simp: list_all_iff)
    then obtain ts where "flatMapUnfold T xs = Inr ts" using flatMapUnfold_total by blast
    then show "\<exists>p. unfold T (UnfoldedTokenExpression xs) = Inr p" by simp
  qed
next
  case EmptyTokenExpression
  then show ?case by simp
next
  case (BlockExpression h b l)
  then show ?case by (auto split: sum.splits)
next
  case (TokenOperand t)
  then show ?case by simp
next
  case (ExpressionOperand e)
  then show ?case by auto
qed

lemma noBlock_signaturesResolve:
  "\<not> hasBlock e \<longrightarrow> signaturesResolve T e" and
  "\<not> hasBlockOperand x \<longrightarrow> signaturesResolveOperand T x"
  by (induction e and x) (auto simp: list_all_iff list_ex_iff)



lemma unfold_signaturesResolve:
  "(\<exists>p. unfold T e = Inr p) \<longrightarrow> signaturesResolve T e" and
  "(\<exists>ts. unfoldOperand T x = Inr ts) \<longrightarrow> signaturesResolveOperand T x"
proof (induction e and x)
  case (OperationTree op xs)
  show ?case
  proof
    assume "\<exists>p. unfold T (OperationTree op xs) = Inr p"
    then obtain ts where "flatMapUnfold T xs = Inr ts" by (auto split: sum.splits)
    then obtain tss where "list_all2 (\<lambda>x ts'. unfoldOperand T x = Inr ts') xs tss"
      using flatMapUnfold_Inr by blast
    then have "\<And>x. x \<in> set xs \<Longrightarrow> \<exists>ts. unfoldOperand T x = Inr ts"
      by (auto simp: list_all2_conv_all_nth in_set_conv_nth)
    then show "signaturesResolve T (OperationTree op xs)"
      using OperationTree.IH by (auto simp: list_all_iff)
  qed
next
  case (UnfoldedTokenExpression xs)
  show ?case
  proof
    assume "\<exists>p. unfold T (UnfoldedTokenExpression xs) = Inr p"
    then obtain ts where "flatMapUnfold T xs = Inr ts" by (auto split: sum.splits)
    then obtain tss where "list_all2 (\<lambda>x ts'. unfoldOperand T x = Inr ts') xs tss"
      using flatMapUnfold_Inr by blast
    then have "\<And>x. x \<in> set xs \<Longrightarrow> \<exists>ts. unfoldOperand T x = Inr ts"
      by (auto simp: list_all2_conv_all_nth in_set_conv_nth)
    then show "signaturesResolve T (UnfoldedTokenExpression xs)"
      using UnfoldedTokenExpression.IH by (auto simp: list_all_iff)
  qed
next
  case EmptyTokenExpression
  then show ?case by simp
next
  case (BlockExpression h b l)
  then show ?case by (auto split: sum.splits)
next
  case (TokenOperand t)
  then show ?case by simp
next
  case (ExpressionOperand e)
  then show ?case by (auto split: sum.splits)
qed

text \<open>
  What \<open>unfold\<close> returns when it returns. If every operand of an \<open>OperationTree\<close> unfolds, the
  tree unfolds to the concatenation of the operands' token lists followed by the operator,
  and it unfolds only then; an operand that is a token contributes itself, one that is an
  expression the tokens of its unfolding.
\<close>

lemma unfold_OperationTree_concat:
  "(list_all2 (\<lambda>x ts. unfoldOperand T x = Inr ts) operands tss \<longrightarrow>
       unfold T (OperationTree operator operands)
         = Inr (PureUnfoldedTokenExpression (concat tss @ [operator])))
   \<and> (\<forall>p. unfold T (OperationTree operator operands) = Inr p \<longrightarrow>
        (\<exists>tss'. list_all2 (\<lambda>x ts. unfoldOperand T x = Inr ts) operands tss'
                \<and> p = PureUnfoldedTokenExpression (concat tss' @ [operator])))
   \<and> unfoldOperand T (TokenOperand t) = Inr [t]
   \<and> (\<forall>p. unfold T e = Inr p \<longrightarrow> unfoldOperand T (ExpressionOperand e) = Inr (tokens p))"
proof (intro conjI allI impI)
  assume "list_all2 (\<lambda>x ts. unfoldOperand T x = Inr ts) operands tss"
  then have "flatMapUnfold T operands = Inr (concat tss)" by (rule flatMapUnfold_concat)
  then show "unfold T (OperationTree operator operands)
         = Inr (PureUnfoldedTokenExpression (concat tss @ [operator]))" by simp
next
  fix p assume a: "unfold T (OperationTree operator operands) = Inr p"
  then obtain ts where ts: "flatMapUnfold T operands = Inr ts"
      "p = PureUnfoldedTokenExpression (ts @ [operator])"
    by (auto split: sum.splits)
  from flatMapUnfold_Inr [OF ts(1)] ts(2)
  show "\<exists>tss'. list_all2 (\<lambda>x ts. unfoldOperand T x = Inr ts) operands tss'
                \<and> p = PureUnfoldedTokenExpression (concat tss' @ [operator])"
    by auto
next
  show "unfoldOperand T (TokenOperand t) = Inr [t]" by simp
next
  fix p assume "unfold T e = Inr p"
  then show "unfoldOperand T (ExpressionOperand e) = Inr (tokens p)" by simp
qed

text \<open>A block whose \<open>getSignature\<close> returns and whose body unfolds is unfolded to the header
  token, the body's tokens and an \<^verbatim>\<open>end\<close> token at the header's position.\<close>

lemma unfold_BlockExpression_tokens:
  "BlockExpression_getSignature T (BlockExpression headerToken blockExpression label) = Inr sig
   \<Longrightarrow> unfold T blockExpression = Inr unfolded
   \<Longrightarrow> unfold T (BlockExpression headerToken blockExpression label)
          = Inr (PureUnfoldedBlockExpression sig
                   (headerToken # tokens unfolded @
                    [Token End ''end'' (line headerToken) (col headerToken)
                       (indexInSource headerToken) (Some OpcodeEnd) None]))"
  by (simp add: createEndToken_def)

lemma constI32_unfold:
  "unfoldOperand exampleEffects (ExpressionOperand constI32)
     = Inr [opcodeToken ''i32.const'', literalToken ''0'']"
  by (simp add: constI32_def)

lemma nopBlock_signature:
  "BlockExpression_getSignature exampleEffects nopBlock = Inr (FunctionSignature_new [] [])"
  by (simp add: example_defs)

text \<open>\<^verbatim>\<open>(i32.add (i32.const 0) (i32.const 0))\<close> and \<^verbatim>\<open>(block $L nop)\<close> unfold as the specification's
  scenarios say.\<close>

lemma unfold_examples:
  "unfold exampleEffects addTree
     = Inr (PureUnfoldedTokenExpression
         [opcodeToken ''i32.const'', literalToken ''0'',
          opcodeToken ''i32.const'', literalToken ''0'', opcodeToken ''i32.add''])
   \<and> unfold exampleEffects nopBlock
     = Inr (PureUnfoldedBlockExpression (FunctionSignature_new [] [])
         [blockToken, opcodeToken ''nop'', Token End ''end'' 3 9 27 (Some OpcodeEnd) None])"
proof -
  let ?c = "[opcodeToken ''i32.const'', literalToken ''0'']"
  have h1: "list_all2 (\<lambda>x ts. unfoldOperand exampleEffects x = Inr ts)
              [ExpressionOperand constI32, ExpressionOperand constI32] [?c, ?c]"
    by (intro list.rel_intros constI32_unfold)
  from unfold_OperationTree_concat [of exampleEffects
      "[ExpressionOperand constI32, ExpressionOperand constI32]" "[?c, ?c]" "opcodeToken ''i32.add''"] h1
  have a: "unfold exampleEffects addTree
     = Inr (PureUnfoldedTokenExpression
         [opcodeToken ''i32.const'', literalToken ''0'',
          opcodeToken ''i32.const'', literalToken ''0'', opcodeToken ''i32.add''])"
    by (simp add: addTree_def)
  have body: "unfold exampleEffects (UnfoldedTokenExpression [TokenOperand (opcodeToken ''nop'')])
                = Inr (PureUnfoldedTokenExpression [opcodeToken ''nop''])"
    by simp
  from unfold_BlockExpression_tokens [of exampleEffects blockToken
      "UnfoldedTokenExpression [TokenOperand (opcodeToken ''nop'')]" "Some ''$L''"
      "FunctionSignature_new [] []", OF _ body] nopBlock_signature [unfolded nopBlock_def]
  have b: "unfold exampleEffects nopBlock
     = Inr (PureUnfoldedBlockExpression (FunctionSignature_new [] [])
         [blockToken, opcodeToken ''nop'', Token End ''end'' 3 9 27 (Some OpcodeEnd) None])"
    unfolding nopBlock_def by (simp add: blockToken_def)
  from a b show ?thesis by simp
qed

text \<open>
  C1. The claim is that an \<open>OperationTree\<close> unfolds to its operands' unfoldings followed by its
  operator, and that every \<open>BlockExpression\<close> unfolds to its header token, the unfolded body
  and a synthesized \<^verbatim>\<open>end\<close> token. The block \<^verbatim>\<open>(block (param i32 i32) (result i32) i32.add)\<close>,
  constructed with the signature \<open>[I32, I32] \<rightarrow> [I32]\<close>, has a body that unfolds to
  \<^verbatim>\<open>[i32.add]\<close>, yet \<open>unfold\<close> of the block throws: the constructor stored no signature, so
  \<open>getSignature\<close>, which \<open>unfold\<close> calls first, runs the type resolution of the body on an
  empty stack.
\<close>

theorem unfold_block_throws:
  "BlockExpression_new blockToken (FunctionSignature_new [I32, I32] [I32])
       (UnfoldedTokenExpression [TokenOperand (opcodeToken ''i32.add'')]) None
     = Inr addBlock
   \<and> unfold exampleEffects (UnfoldedTokenExpression [TokenOperand (opcodeToken ''i32.add'')])
     = Inr (PureUnfoldedTokenExpression [opcodeToken ''i32.add''])
   \<and> unfold exampleEffects addBlock = Inl TypeMismatch"
  by (simp add: BlockExpression_new_def example_defs)

text \<open>
  \<open>unfold\<close> returns exactly when \<open>getSignature\<close> returns for every block inside the
  expression, so on every expression without a block; and a sequence of tokens only unfolds
  to itself, so unfolding the tokens of an unfolding returns them unchanged.
\<close>

lemma unfold_returns_iff:
  "signaturesResolve T e \<longleftrightarrow> (\<exists>p. unfold T e = Inr p)"
  using signaturesResolve_unfold(1) unfold_signaturesResolve(1) by blast

lemma unfold_noBlock_returns:
  "\<not> hasBlock e \<Longrightarrow> \<exists>p. unfold T e = Inr p"
  using noBlock_signaturesResolve(1) signaturesResolve_unfold(1) by blast

lemma unfold_tokens_identity:
  "unfold T (UnfoldedTokenExpression (map TokenOperand ts)) = Inr (PureUnfoldedTokenExpression ts)"
  by (simp add: flatMapUnfold_tokens)

text \<open>
  C7. The claim is that \<open>unfold\<close> never fails and is idempotent. On the expressions without a
  block it never fails (\<open>unfold_noBlock_returns\<close>), and a token stream unfolds to itself
  (\<open>unfold_tokens_identity\<close>). But \<open>unfold\<close> is not total: the block
  \<^verbatim>\<open>(block (param i32 i32) (result i32) (i32.add))\<close>, constructed with the signature
  \<open>[I32, I32] \<rightarrow> [I32]\<close>, makes it throw, because the constructor stored no signature and
  \<open>getSignature\<close> runs the type resolution of the body on an empty stack.
\<close>

theorem unfold_folded_block_throws:
  "BlockExpression_new blockToken (FunctionSignature_new [I32, I32] [I32])
       (OperationTree (opcodeToken ''i32.add'') []) None
     = Inr foldedAddBlock
   \<and> unfold exampleEffects (OperationTree (opcodeToken ''i32.add'') [])
     = Inr (PureUnfoldedTokenExpression [opcodeToken ''i32.add''])
   \<and> unfold exampleEffects foldedAddBlock = Inl (TypeMismatchExpected [I32, I32] [])"
  by (simp add: BlockExpression_new_def example_defs)

end
